theory Spec2Isabelle
  imports Complex_Main
begin

section \<open>Python values\<close>

text \<open>
  The coordinator stores values of type \<^verbatim>\<open>Any\<close>: integers, floats, booleans and strings.
  Integers are unbounded. A float is an IEEE double: a rational that a double can hold, an
  infinity or a NaN (the sign of zero is not kept). A string is a list of characters
  with code points below 256. The interpreter limits the number of digits that
  \<^verbatim>\<open>int(str)\<close> accepts; the limit is the default one.
\<close>

datatype pyfloat = Finite rat | PosInf | NegInf | NaN

datatype pyval = VInt int | VFloat pyfloat | VBool bool | VStr string

text \<open>The exceptions that the modelled code can raise.\<close>

datatype pyexc =
  TypeError | ValueError | OverflowError | ZeroDivisionError | KeyError | RuntimeError
  | UpdateFailed

subsection \<open>Double-precision arithmetic\<close>

definition round_half_even :: "rat \<Rightarrow> int" where
  "round_half_even q =
     (let f = \<lfloor>q\<rfloor>; d = q - of_int f
      in if d < 1 / 2 then f else if 1 / 2 < d then f + 1 else if even f then f else f + 1)"

text \<open>The number of binary digits of a positive integer.\<close>

function bit_length :: "int \<Rightarrow> int" where
  "bit_length n = (if n \<le> 0 then 0 else 1 + bit_length (n div 2))"
  by pat_completeness auto
termination
  by (relation "measure nat") auto

declare bit_length.simps [simp del]

definition pow2 :: "int \<Rightarrow> rat" where
  "pow2 e = (if 0 \<le> e then 2 ^ nat e else 1 / 2 ^ nat (- e))"

text \<open>For \<open>q > 0\<close>, the \<open>e\<close> with \<open>2 ^ e \<le> q < 2 ^ (e + 1)\<close>.\<close>

definition ilog2 :: "rat \<Rightarrow> int" where
  "ilog2 q =
     (let (a, b) = quotient_of q;
          k = bit_length a - bit_length b
      in if pow2 k \<le> q then k else k - 1)"

text \<open>
  Rounding of an exact value to the nearest double, ties to even: 53 significant bits
  \<open>m\<close> at the exponent \<open>e\<close>, least exponent \<open>-1022\<close> (below it the spacing stays
  \<open>2 ^ -1074\<close>), and an infinity once the rounded value reaches \<open>2 ^ 1024\<close>, which is
  when \<open>e\<close> exceeds \<open>1023\<close> or the rounding at \<open>e = 1023\<close> carries to \<open>2 ^ 53\<close>.
\<close>

definition double_of_rat :: "rat \<Rightarrow> pyfloat" where
  "double_of_rat q =
     (if q = 0 then Finite 0
      else let a = \<bar>q\<bar>; e = max (ilog2 a) (- 1022); u = pow2 (e - 52);
               m = round_half_even (a / u)
           in if 1023 < e \<or> (e = 1023 \<and> m = 2 ^ 53)
              then (if 0 < q then PosInf else NegInf)
              else Finite (if 0 < q then of_int m * u else - (of_int m * u)))"

text \<open>\<^verbatim>\<open>float(i)\<close> for an integer \<open>i\<close>: OverflowError when \<open>i\<close> is too large for a double.\<close>

definition float_of_int :: "int \<Rightarrow> pyexc + pyfloat" where
  "float_of_int i =
     (case double_of_rat (of_int i) of
        PosInf \<Rightarrow> Inl OverflowError
      | NegInf \<Rightarrow> Inl OverflowError
      | f \<Rightarrow> Inr f)"

fun float_neg :: "pyfloat \<Rightarrow> pyfloat" where
  "float_neg (Finite q) = Finite (- q)"
| "float_neg PosInf = NegInf"
| "float_neg NegInf = PosInf"
| "float_neg NaN = NaN"

fun float_mul :: "pyfloat \<Rightarrow> pyfloat \<Rightarrow> pyfloat" where
  "float_mul NaN y = NaN"
| "float_mul x NaN = NaN"
| "float_mul (Finite a) (Finite b) = double_of_rat (a * b)"
| "float_mul (Finite a) y = (if a = 0 then NaN else if 0 < a then y else float_neg y)"
| "float_mul x (Finite b) = (if b = 0 then NaN else if 0 < b then x else float_neg x)"
| "float_mul PosInf y = y"
| "float_mul NegInf y = float_neg y"

text \<open>Float division; a zero divisor raises.\<close>

fun float_div :: "pyfloat \<Rightarrow> pyfloat \<Rightarrow> pyexc + pyfloat" where
  "float_div NaN (Finite b) = (if b = 0 then Inl ZeroDivisionError else Inr NaN)"
| "float_div NaN y = Inr NaN"
| "float_div x NaN = Inr NaN"
| "float_div (Finite a) (Finite b) =
     (if b = 0 then Inl ZeroDivisionError else Inr (double_of_rat (a / b)))"
| "float_div (Finite a) y = Inr (Finite 0)"
| "float_div x (Finite b) =
     (if b = 0 then Inl ZeroDivisionError else if 0 < b then Inr x else Inr (float_neg x))"
| "float_div x y = Inr NaN"

text \<open>
  \<^verbatim>\<open>value / d\<close> for an integer constant \<open>d\<close>. Between two integers the quotient is rounded
  once, and a quotient too large for a double raises OverflowError; a boolean is an
  integer; a string raises TypeError.
\<close>

definition int_truediv :: "int \<Rightarrow> int \<Rightarrow> pyexc + pyfloat" where
  "int_truediv i d =
     (if d = 0 then Inl ZeroDivisionError
      else case double_of_rat (of_int i / of_int d) of
             PosInf \<Rightarrow> Inl OverflowError
           | NegInf \<Rightarrow> Inl OverflowError
           | f \<Rightarrow> Inr f)"

definition py_truediv :: "pyval \<Rightarrow> int \<Rightarrow> pyexc + pyfloat" where
  "py_truediv v d =
     (case v of
        VInt i \<Rightarrow> int_truediv i d
      | VBool b \<Rightarrow> int_truediv (if b then 1 else 0) d
      | VFloat x \<Rightarrow> (case float_of_int d of Inl e \<Rightarrow> Inl e | Inr y \<Rightarrow> float_div x y)
      | VStr s \<Rightarrow> Inl TypeError)"

text \<open>\<^verbatim>\<open>value * scale\<close> for a float \<open>scale\<close> and a numeric \<open>value\<close>.\<close>

definition py_mul_float :: "pyval \<Rightarrow> pyfloat \<Rightarrow> pyexc + pyfloat" where
  "py_mul_float v y =
     (case v of
        VInt i \<Rightarrow> (case float_of_int i of Inl e \<Rightarrow> Inl e | Inr x \<Rightarrow> Inr (float_mul x y))
      | VBool b \<Rightarrow> Inr (float_mul (Finite (if b then 1 else 0)) y)
      | VFloat x \<Rightarrow> Inr (float_mul x y)
      | VStr s \<Rightarrow> Inl TypeError)"

text \<open>
  \<^verbatim>\<open>round(x, n)\<close> on a float, \<open>n \<ge> 0\<close>: an infinity or a NaN rounds to itself; a finite \<open>x\<close>
  is rounded to \<open>n\<close> decimals, ties to even, and then to the nearest double.
\<close>

definition py_round :: "pyfloat \<Rightarrow> nat \<Rightarrow> pyexc + pyfloat" where
  "py_round x n =
     (case x of
        Finite q \<Rightarrow>
          (case double_of_rat (of_int (round_half_even (q * 10 ^ n)) / 10 ^ n) of
             PosInf \<Rightarrow> Inl OverflowError
           | NegInf \<Rightarrow> Inl OverflowError
           | r \<Rightarrow> Inr r)
      | _ \<Rightarrow> Inr x)"

subsection \<open>Strings\<close>

text \<open>The characters that \<^verbatim>\<open>str.strip()\<close> removes at both ends.\<close>

definition isspace :: "char \<Rightarrow> bool" where
  "isspace c = ((of_char c :: nat) \<in> {9, 10, 11, 12, 13, 28, 29, 30, 31, 32, 133, 160})"

definition strip :: "string \<Rightarrow> string" where
  "strip s = rev (dropWhile isspace (rev (dropWhile isspace s)))"

definition is_digit :: "char \<Rightarrow> bool" where
  "is_digit c = (48 \<le> (of_char c :: nat) \<and> (of_char c :: nat) \<le> 57)"

definition digits_value :: "string \<Rightarrow> int" where
  "digits_value ds = foldl (\<lambda>acc c. 10 * acc + (int (of_char c) - 48)) 0 ds"

text \<open>
  \<^verbatim>\<open>int(s)\<close> on a string, base ten. The whitespace that it skips at both ends is not that
  of \<^verbatim>\<open>str.strip()\<close>: the four separators 28 to 31 are not skipped. One sign is allowed,
  single underscores may separate digits, and more digits than the limit raise
  ValueError.
\<close>

definition int_isspace :: "char \<Rightarrow> bool" where
  "int_isspace c = ((of_char c :: nat) \<in> {9, 10, 11, 12, 13, 32, 133, 160})"

definition int_strip :: "string \<Rightarrow> string" where
  "int_strip s = rev (dropWhile int_isspace (rev (dropWhile int_isspace s)))"

definition int_max_str_digits :: nat where
  "int_max_str_digits = 4300"

fun digit_groups :: "string \<Rightarrow> bool" where
  "digit_groups [] = False"
| "digit_groups [c] = is_digit c"
| "digit_groups (c # d # cs) =
     (is_digit c \<and> (if d = CHR ''_'' then digit_groups cs else digit_groups (d # cs)))"

definition int_of_str :: "string \<Rightarrow> pyexc + int" where
  "int_of_str s =
     (let t = int_strip s;
          neg = (take 1 t = ''-'');
          body = (if take 1 t = ''-'' \<or> take 1 t = ''+'' then drop 1 t else t);
          ds = filter (\<lambda>c. c \<noteq> CHR ''_'') body
      in if digit_groups body
         then (if int_max_str_digits < length ds then Inl ValueError
               else Inr ((if neg then - 1 else 1) * digits_value ds))
         else Inl ValueError)"

text \<open>\<^verbatim>\<open>int(v)\<close>: truncation toward zero on a float.\<close>

definition py_int :: "pyval \<Rightarrow> pyexc + int" where
  "py_int v =
     (case v of
        VInt i \<Rightarrow> Inr i
      | VBool b \<Rightarrow> Inr (if b then 1 else 0)
      | VFloat (Finite q) \<Rightarrow> Inr (if 0 \<le> q then \<lfloor>q\<rfloor> else \<lceil>q\<rceil>)
      | VFloat NaN \<Rightarrow> Inl ValueError
      | VFloat _ \<Rightarrow> Inl OverflowError
      | VStr s \<Rightarrow> int_of_str s)"

subsection \<open>The three regular expressions of the coordinator\<close>

text \<open>
  \<^verbatim>\<open>re.search(r"\((\d+)\)", text)\<close>: the leftmost opening parenthesis that is followed by
  one or more digits and a closing parenthesis; the result is group 1, the digits. A
  digit is never a closing parenthesis, so the greedy run of digits is the only
  candidate at each position.
\<close>

definition paren_group_at :: "string \<Rightarrow> string option" where
  "paren_group_at s =
     (if take 1 s = ''(''
      then let ds = takeWhile is_digit (drop 1 s); rest = dropWhile is_digit (drop 1 s)
           in if ds \<noteq> [] \<and> take 1 rest = '')'' then Some ds else None
      else None)"

fun re_search_paren :: "string \<Rightarrow> string option" where
  "re_search_paren [] = None"
| "re_search_paren (c # cs) =
     (case paren_group_at (c # cs) of
        Some ds \<Rightarrow> Some ds
      | None \<Rightarrow> re_search_paren cs)"

text \<open>\<^verbatim>\<open>re.fullmatch(r"-?\d+", text)\<close> and \<^verbatim>\<open>re.fullmatch(r"-?\d+\.\d+", text)\<close>.\<close>

definition unsigned_part :: "string \<Rightarrow> string" where
  "unsigned_part s = (if take 1 s = ''-'' then drop 1 s else s)"

definition fullmatch_int :: "string \<Rightarrow> bool" where
  "fullmatch_int s = (unsigned_part s \<noteq> [] \<and> list_all is_digit (unsigned_part s))"

definition fullmatch_decimal :: "string \<Rightarrow> bool" where
  "fullmatch_decimal s =
     (let b = unsigned_part s; ip = takeWhile is_digit b; rest = dropWhile is_digit b
      in ip \<noteq> [] \<and> take 1 rest = ''.'' \<and> drop 1 rest \<noteq> [] \<and> list_all is_digit (drop 1 rest))"

text \<open>\<^verbatim>\<open>float(text)\<close> on a text that matched the decimal pattern.\<close>

definition rat_of_decimal :: "string \<Rightarrow> rat" where
  "rat_of_decimal s =
     (let b = unsigned_part s; ip = takeWhile is_digit b; fp = drop 1 (dropWhile is_digit b);
          m = of_int (digits_value ip) + of_int (digits_value fp) / 10 ^ length fp
      in if take 1 s = ''-'' then - m else m)"

definition float_of_text :: "string \<Rightarrow> pyfloat" where
  "float_of_text s = double_of_rat (rat_of_decimal s)"

subsection \<open>\<^verbatim>\<open>_coerce_snmp_value\<close>\<close>

text \<open>The two conversions \<^verbatim>\<open>int(match.group(1))\<close> and \<^verbatim>\<open>int(text)\<close> can raise.\<close>

definition coerce_snmp_value :: "pyval option \<Rightarrow> pyexc + pyval option" where
  "coerce_snmp_value v =
     (case v of
        None \<Rightarrow> Inr None
      | Some (VInt i) \<Rightarrow> Inr (Some (VInt i))
      | Some (VFloat f) \<Rightarrow> Inr (Some (VFloat f))
      | Some (VBool b) \<Rightarrow> Inr (Some (VBool b))
      | Some (VStr s) \<Rightarrow>
          (let text = strip s
           in if text = [] then Inr None
              else case re_search_paren text of
                     Some ds \<Rightarrow>
                       (case int_of_str ds of
                          Inl e \<Rightarrow> Inl e
                        | Inr n \<Rightarrow> Inr (Some (VInt n)))
                   | None \<Rightarrow>
                       if fullmatch_int text
                       then (case int_of_str text of
                               Inl e \<Rightarrow> Inl e
                             | Inr n \<Rightarrow> Inr (Some (VInt n)))
                       else if fullmatch_decimal text
                       then Inr (Some (VFloat (float_of_text text)))
                       else Inr (Some (VStr text))))"

section \<open>Transport\<close>

text \<open>
  One GET against the device either raises (a timeout or another exception) or returns
  an error indication, an error status and the variable bindings. The value of a
  binding is one of the four sentinels, another ASN.1 object, or an object without
  \<^verbatim>\<open>isSameTypeWith\<close>; the last two carry their \<^verbatim>\<open>str()\<close>.
\<close>

datatype value_obj =
  Null | NoSuchInstance | NoSuchObject | EndOfMibView | Asn1 string | Plain string

datatype get_outcome =
  TimeoutRaised | ExceptionRaised | Reply bool bool "value_obj list"

text \<open>
  The network answers a GET for an object identifier at a message-processing model. Host,
  community, timeout and retry count are fixed for one coordinator and are part of the
  network.
\<close>

type_synonym network = "int \<Rightarrow> string \<Rightarrow> get_outcome"

type_synonym request = "int \<times> string"

definition snmp_version_to_model :: "string \<Rightarrow> int" where
  "snmp_version_to_model version = (if version = ''1'' then 0 else 1)"

fun is_missing_value :: "value_obj \<Rightarrow> bool" where
  "is_missing_value Null = True"
| "is_missing_value (Plain t) = False"
| "is_missing_value NoSuchInstance = True"
| "is_missing_value NoSuchObject = True"
| "is_missing_value EndOfMibView = True"
| "is_missing_value (Asn1 t) = False"

fun str_of :: "value_obj \<Rightarrow> string" where
  "str_of (Asn1 t) = t"
| "str_of (Plain t) = t"
| "str_of Null = []"
| "str_of NoSuchInstance = ''No Such Instance currently exists at this OID''"
| "str_of NoSuchObject = ''No Such Object currently exists at this OID''"
| "str_of EndOfMibView = ''No more variables left in this MIB View''"

text \<open>\<^verbatim>\<open>_async_get_snmp_value\<close>: the loop over the bindings returns at the first one.\<close>

definition async_get_snmp_value :: "get_outcome \<Rightarrow> string option" where
  "async_get_snmp_value outcome =
     (case outcome of
        TimeoutRaised \<Rightarrow> None
      | ExceptionRaised \<Rightarrow> None
      | Reply error_indication error_status var_binds \<Rightarrow>
          if error_indication then None
          else if error_status then None
          else (case var_binds of
                  [] \<Rightarrow> None
                | value_obj # _ \<Rightarrow>
                    if is_missing_value value_obj then None
                    else if strip (str_of value_obj) = [] then None
                    else Some (strip (str_of value_obj))))"

text \<open>
  \<^verbatim>\<open>_async_get_snmp_values\<close>: one GET per identifier, gathered; the result maps every
  identifier to an optional string. The second component is the list of GETs sent. A
  gathered result is an exception or the value of the single GET.
\<close>

definition gather :: "network \<Rightarrow> string list \<Rightarrow> string \<Rightarrow> (pyexc + string option) list" where
  "gather net oids version =
     map (\<lambda>oid. Inr (async_get_snmp_value (net (snmp_version_to_model version) oid))) oids"

definition async_get_snmp_values_priv ::
  "network \<Rightarrow> string list \<Rightarrow> string \<Rightarrow> (string \<rightharpoonup> string option) \<times> request list" where
  "async_get_snmp_values_priv net oids version =
     (if oids = [] then (Map.empty, [])
      else (foldl (\<lambda>values (oid, result).
                     case result of Inl e \<Rightarrow> values(oid \<mapsto> None) | Inr r \<Rightarrow> values(oid \<mapsto> r))
                  Map.empty (zip oids (gather net oids version)),
            map (\<lambda>oid. (snmp_version_to_model version, oid)) oids))"

definition get_snmp_values_sync ::
  "network \<Rightarrow> string list \<Rightarrow> string \<Rightarrow> (string \<rightharpoonup> string option) \<times> request list" where
  "get_snmp_values_sync net oids version = async_get_snmp_values_priv net oids version"

text \<open>
  \<^verbatim>\<open>async_get_snmp_values\<close>; \<open>hass\<close> tells whether a Home Assistant instance was passed.
\<close>

definition async_get_snmp_values ::
  "network \<Rightarrow> string list \<Rightarrow> string \<Rightarrow> bool \<Rightarrow> bool
     \<Rightarrow> (pyexc + (string \<rightharpoonup> string option)) \<times> request list" where
  "async_get_snmp_values net oids version hass use_executor =
     (if oids = [] then (Inr Map.empty, [])
      else if use_executor then
        (if \<not> hass then (Inl RuntimeError, [])
         else (Inr (fst (get_snmp_values_sync net oids version)),
               snd (get_snmp_values_sync net oids version)))
      else (Inr (fst (async_get_snmp_values_priv net oids version)),
            snd (async_get_snmp_values_priv net oids version)))"

section \<open>Protocol tables\<close>

datatype mib = UPS_MIB | APC_MIB

record oid_spec =
  spec_oid :: string
  spec_scale :: "pyfloat option"
  spec_timeticks_minutes :: bool

definition plain :: "string \<Rightarrow> oid_spec" where
  "plain x = \<lparr>spec_oid = x, spec_scale = None, spec_timeticks_minutes = False\<rparr>"

text \<open>The float literal \<^verbatim>\<open>0.1\<close>.\<close>

definition float_0_1 :: pyfloat where
  "float_0_1 = Finite (3602879701896397 / 36028797018963968)"

definition scaled :: "string \<Rightarrow> oid_spec" where
  "scaled x = \<lparr>spec_oid = x, spec_scale = Some float_0_1, spec_timeticks_minutes = False\<rparr>"

definition timeticks :: "string \<Rightarrow> oid_spec" where
  "timeticks x = \<lparr>spec_oid = x, spec_scale = None, spec_timeticks_minutes = True\<rparr>"

definition UPS_MIB_OIDS :: "(string \<times> oid_spec) list" where
  "UPS_MIB_OIDS =
     [(''manufacturer'', plain ''1.3.6.1.2.1.33.1.1.1.0''),
      (''model'', plain ''1.3.6.1.2.1.33.1.1.2.0''),
      (''firmware'', plain ''1.3.6.1.2.1.33.1.1.3.0''),
      (''name'', plain ''1.3.6.1.2.1.33.1.1.5.0''),
      (''battery_status'', plain ''1.3.6.1.2.1.33.1.2.1.0''),
      (''seconds_on_battery'', plain ''1.3.6.1.2.1.33.1.2.2.0''),
      (''runtime_remaining'', plain ''1.3.6.1.2.1.33.1.2.3.0''),
      (''battery_charge'', plain ''1.3.6.1.2.1.33.1.2.4.0''),
      (''battery_voltage'', scaled ''1.3.6.1.2.1.33.1.2.5.0''),
      (''battery_temperature'', plain ''1.3.6.1.2.1.33.1.2.7.0''),
      (''input_line_count'', plain ''1.3.6.1.2.1.33.1.3.2.0''),
      (''input_frequency'', scaled ''1.3.6.1.2.1.33.1.3.3.1.2.1''),
      (''input_voltage'', plain ''1.3.6.1.2.1.33.1.3.3.1.3.1''),
      (''input_current'', scaled ''1.3.6.1.2.1.33.1.3.3.1.4.1''),
      (''input_power'', plain ''1.3.6.1.2.1.33.1.3.3.1.5.1''),
      (''output_source_raw'', plain ''1.3.6.1.2.1.33.1.4.1.0''),
      (''output_frequency'', scaled ''1.3.6.1.2.1.33.1.4.2.0''),
      (''output_line_count'', plain ''1.3.6.1.2.1.33.1.4.3.0''),
      (''bypass_frequency'', scaled ''1.3.6.1.2.1.33.1.5.1.0''),
      (''bypass_line_count'', plain ''1.3.6.1.2.1.33.1.5.2.0''),
      (''alarms_present'', plain ''1.3.6.1.2.1.33.1.6.1.0'')]"

definition APC_MIB_OIDS :: "(string \<times> oid_spec) list" where
  "APC_MIB_OIDS =
     [(''model'', plain ''1.3.6.1.4.1.318.1.1.1.1.1.1.0''),
      (''name'', plain ''1.3.6.1.4.1.318.1.1.1.1.1.2.0''),
      (''firmware'', plain ''1.3.6.1.4.1.318.1.1.1.1.2.1.0''),
      (''serial_number'', plain ''1.3.6.1.4.1.318.1.1.1.1.2.3.0''),
      (''battery_status'', plain ''1.3.6.1.4.1.318.1.1.1.2.1.1.0''),
      (''battery_charge'', plain ''1.3.6.1.4.1.318.1.1.1.2.2.1.0''),
      (''battery_temperature'', plain ''1.3.6.1.4.1.318.1.1.1.2.2.2.0''),
      (''runtime_remaining'', timeticks ''1.3.6.1.4.1.318.1.1.1.2.2.3.0''),
      (''output_source_raw'', plain ''1.3.6.1.4.1.318.1.1.1.4.1.1.0''),
      (''output_voltage'', plain ''1.3.6.1.4.1.318.1.1.1.4.2.1.0''),
      (''output_frequency'', plain ''1.3.6.1.4.1.318.1.1.1.4.2.2.0''),
      (''output_load'', plain ''1.3.6.1.4.1.318.1.1.1.4.2.3.0''),
      (''input_voltage'', plain ''1.3.6.1.4.1.318.1.1.1.3.2.1.0''),
      (''input_frequency'', plain ''1.3.6.1.4.1.318.1.1.1.3.2.4.0'')]"

definition UPS_OUTPUT_SOURCE_MAP :: "(int \<times> string) list" where
  "UPS_OUTPUT_SOURCE_MAP =
     [(1, ''other''), (2, ''none''), (3, ''normal''), (4, ''bypass''), (5, ''battery''),
      (6, ''booster''), (7, ''reducer'')]"

definition APC_OUTPUT_SOURCE_MAP :: "(int \<times> string) list" where
  "APC_OUTPUT_SOURCE_MAP = [(1, ''other''), (2, ''normal''), (3, ''battery''), (4, ''bypass'')]"

definition BATTERY_STATUS_MAP :: "(int \<times> string) list" where
  "BATTERY_STATUS_MAP = [(1, ''unknown''), (2, ''normal''), (3, ''low''), (4, ''depleted'')]"

text \<open>\<^verbatim>\<open>d.get(k, default)\<close> on a dictionary literal.\<close>

definition get_default :: "('k \<times> 'v) list \<Rightarrow> 'k \<Rightarrow> 'v \<Rightarrow> 'v" where
  "get_default d k dflt = (case map_of d k of None \<Rightarrow> dflt | Some v \<Rightarrow> v)"

section \<open>Coordinator\<close>

type_synonym snapshot = "string \<rightharpoonup> pyval"

subsection \<open>\<^verbatim>\<open>_derive_states\<close>\<close>

text \<open>
  The \<^verbatim>\<open>try\<close> around the battery status catches TypeError and ValueError only; the three
  conversions of \<^verbatim>\<open>output_source_raw\<close> are outside any \<^verbatim>\<open>try\<close>.
\<close>

definition derive_states :: "mib option \<Rightarrow> snapshot \<Rightarrow> pyexc + snapshot" where
  "derive_states protocol data =
     (let output_source_raw = data ''output_source_raw'';
          battery =
            (case data ''battery_status'' of
               None \<Rightarrow> Inr Map.empty
             | Some battery_status \<Rightarrow>
                 (case py_int battery_status of
                    Inr code \<Rightarrow>
                      Inr [''battery_status_text'' \<mapsto>
                             VStr (get_default BATTERY_STATUS_MAP code ''unknown'')]
                  | Inl TypeError \<Rightarrow> Inr [''battery_status_text'' \<mapsto> VStr ''unknown'']
                  | Inl ValueError \<Rightarrow> Inr [''battery_status_text'' \<mapsto> VStr ''unknown'']
                  | Inl e \<Rightarrow> Inl e))
      in case battery of
           Inl e \<Rightarrow> Inl e
         | Inr derived \<Rightarrow>
             (case output_source_raw of
                None \<Rightarrow> Inr derived
              | Some raw \<Rightarrow>
                  (let source_map =
                         (if protocol = Some APC_MIB then APC_OUTPUT_SOURCE_MAP
                          else UPS_OUTPUT_SOURCE_MAP);
                       normal_values = (if protocol = Some APC_MIB then {2, 4} else {3, 4});
                       battery_values = (if protocol = Some APC_MIB then {3} else {5 :: int})
                   in case py_int raw of
                        Inl e \<Rightarrow> Inl e
                      | Inr code \<Rightarrow>
                          Inr (derived ++
                               [''output_source'' \<mapsto> VStr (get_default source_map code ''unknown''),
                                ''on_battery'' \<mapsto> VBool (code \<in> battery_values),
                                ''ac_power'' \<mapsto> VBool (code \<in> normal_values),
                                ''on_bypass'' \<mapsto>
                                  VBool (get_default source_map code ''unknown'' = ''bypass'')]))))"

subsection \<open>\<^verbatim>\<open>_fetch_keys\<close>\<close>

definition is_number :: "pyval \<Rightarrow> bool" where
  "is_number v = (case v of VStr s \<Rightarrow> False | _ \<Rightarrow> True)"

text \<open>
  The unit conversion in the body of the loop: the division by 6000 has no type test,
  the scaling has one.
\<close>

definition apply_unit :: "oid_spec \<Rightarrow> pyval \<Rightarrow> pyexc + pyval" where
  "apply_unit spec v =
     (case (if spec_timeticks_minutes spec
            then (case py_truediv v 6000 of
                    Inl e \<Rightarrow> Inl e
                  | Inr q \<Rightarrow> (case py_round q 1 of Inl e \<Rightarrow> Inl e | Inr r \<Rightarrow> Inr (VFloat r)))
            else Inr v) of
        Inl e \<Rightarrow> Inl e
      | Inr v1 \<Rightarrow>
          (case spec_scale spec of
             None \<Rightarrow> Inr v1
           | Some scale \<Rightarrow>
               if is_number v1
               then (case py_mul_float v1 scale of
                       Inl e \<Rightarrow> Inl e
                     | Inr p \<Rightarrow> (case py_round p 2 of Inl e \<Rightarrow> Inl e | Inr r \<Rightarrow> Inr (VFloat r)))
               else Inr v1))"

text \<open>\<^verbatim>\<open>raw.get(oid)\<close> on the result of the transport.\<close>

definition raw_get :: "(string \<rightharpoonup> string option) \<Rightarrow> string \<Rightarrow> string option" where
  "raw_get raw x = (case raw x of None \<Rightarrow> None | Some r \<Rightarrow> r)"

text \<open>
  The loop over the keys. The source iterates a set, in an order that Python leaves open;
  here the keys come as a list. The dictionary built does not depend on the order; which
  exception is reported, when several keys raise, does.
\<close>

fun fetch_loop ::
  "(string \<times> oid_spec) list \<Rightarrow> (string \<rightharpoonup> string option) \<Rightarrow> string list \<Rightarrow> snapshot
     \<Rightarrow> pyexc + snapshot" where
  "fetch_loop oid_map raw [] data = Inr data"
| "fetch_loop oid_map raw (key # keys) data =
     (case map_of oid_map key of
        None \<Rightarrow> fetch_loop oid_map raw keys data
      | Some spec \<Rightarrow>
          (case coerce_snmp_value (map_option VStr (raw_get raw (spec_oid spec))) of
             Inl e \<Rightarrow> Inl e
           | Inr None \<Rightarrow> fetch_loop oid_map raw keys data
           | Inr (Some v) \<Rightarrow>
               (case apply_unit spec v of
                  Inl e \<Rightarrow> Inl e
                | Inr v' \<Rightarrow> fetch_loop oid_map raw keys (data(key \<mapsto> v')))))"

subsection \<open>State\<close>

datatype warning = UnableToDetect | BackingOff pyexc int

text \<open>
  The attributes of the coordinator that its update cycle reads or writes. Clock
  readings are exact rationals. \<open>sent\<close> and \<open>warnings\<close> are not attributes: they record
  the GETs sent to the device and the warnings logged so far.
\<close>

record coordinator =
  slow_poll_interval :: int
  last_slow_poll :: rat
  protocol :: "mib option"
  snmp_version :: string
  data :: snapshot
  manufacturer :: "pyval option"
  hw_model :: "pyval option"
  serial_number :: "pyval option"
  fw_version :: "pyval option"
  failure_count :: nat
  backoff_until :: rat
  sent :: "request list"
  warnings :: "warning list"

text \<open>The two attributes that only the constructor writes.\<close>

definition backoff_base :: int where
  "backoff_base = 2"

definition backoff_max :: int where
  "backoff_max = 60"


text \<open>The device: what the network answers, given the GETs sent before.\<close>

type_synonym device = "request list \<Rightarrow> network"

text \<open>The identifiers of the keys that the table has, in the order of the keys.\<close>

definition key_oids :: "(string \<times> oid_spec) list \<Rightarrow> string list \<Rightarrow> string list" where
  "key_oids oid_map keys =
     map (\<lambda>key. spec_oid (the (map_of oid_map key)))
       (filter (\<lambda>key. map_of oid_map key \<noteq> None) keys)"

definition fetch_keys ::
  "device \<Rightarrow> (string \<times> oid_spec) list \<Rightarrow> string list \<Rightarrow> coordinator
     \<Rightarrow> (pyexc + snapshot) \<times> coordinator" where
  "fetch_keys dev oid_map keys s =
     (let oids = key_oids oid_map keys
      in if oids = [] then (Inr Map.empty, s)
         else (case async_get_snmp_values (dev (sent s)) oids (snmp_version s) True True of
                 (Inl e, reqs) \<Rightarrow> (Inl e, s\<lparr>sent := sent s @ reqs\<rparr>)
               | (Inr raw, reqs) \<Rightarrow>
                   (fetch_loop oid_map raw keys Map.empty, s\<lparr>sent := sent s @ reqs\<rparr>)))"

subsection \<open>Protocol detection\<close>

definition try_protocol ::
  "device \<Rightarrow> mib \<Rightarrow> (string \<times> oid_spec) list \<Rightarrow> string \<Rightarrow> coordinator
     \<Rightarrow> (pyexc + bool) \<times> coordinator" where
  "try_protocol dev p oid_map version s =
     (case map_of oid_map (if p = UPS_MIB then ''output_source_raw'' else ''model'') of
        None \<Rightarrow> (Inl KeyError, s)
      | Some spec \<Rightarrow>
          (case async_get_snmp_values (dev (sent s)) [spec_oid spec] version True True of
             (Inl e, reqs) \<Rightarrow> (Inl e, s\<lparr>sent := sent s @ reqs\<rparr>)
           | (Inr values, reqs) \<Rightarrow>
               (Inr (raw_get values (spec_oid spec) \<noteq> None), s\<lparr>sent := sent s @ reqs\<rparr>)))"

text \<open>
  The loop of \<^verbatim>\<open>_detect_protocol\<close> over the versions; the result tells whether the loop
  returned.
\<close>

fun detect_loop :: "device \<Rightarrow> string list \<Rightarrow> coordinator \<Rightarrow> (pyexc + bool) \<times> coordinator" where
  "detect_loop dev [] s = (Inr False, s)"
| "detect_loop dev (version # versions) s =
     (case try_protocol dev UPS_MIB UPS_MIB_OIDS version s of
        (Inl e, s1) \<Rightarrow> (Inl e, s1)
      | (Inr True, s1) \<Rightarrow> (Inr True, s1\<lparr>protocol := Some UPS_MIB, snmp_version := version\<rparr>)
      | (Inr False, s1) \<Rightarrow>
          (case try_protocol dev APC_MIB APC_MIB_OIDS version s1 of
             (Inl e, s2) \<Rightarrow> (Inl e, s2)
           | (Inr True, s2) \<Rightarrow>
               (Inr True, s2\<lparr>protocol := Some APC_MIB, snmp_version := version\<rparr>)
           | (Inr False, s2) \<Rightarrow> detect_loop dev versions s2))"

definition detect_protocol :: "device \<Rightarrow> coordinator \<Rightarrow> (pyexc + unit) \<times> coordinator" where
  "detect_protocol dev s =
     (case detect_loop dev [''2c'', ''1''] s of
        (Inl e, s1) \<Rightarrow> (Inl e, s1)
      | (Inr True, s1) \<Rightarrow> (Inr (), s1)
      | (Inr False, s1) \<Rightarrow>
          (Inr (), s1\<lparr>protocol := Some UPS_MIB, warnings := warnings s1 @ [UnableToDetect]\<rparr>))"

subsection \<open>Metadata\<close>

fun truthy :: "pyval \<Rightarrow> bool" where
  "truthy (VInt i) = (i \<noteq> 0)"
| "truthy (VFloat (Finite q)) = (q \<noteq> 0)"
| "truthy (VFloat x) = True"
| "truthy (VBool b) = b"
| "truthy (VStr t) = (t \<noteq> [])"

text \<open>\<^verbatim>\<open>not a\<close> and \<^verbatim>\<open>a or b\<close>, with None for a missing value.\<close>

definition falsy :: "pyval option \<Rightarrow> bool" where
  "falsy a = (case a of None \<Rightarrow> True | Some v \<Rightarrow> \<not> truthy v)"

definition py_or :: "pyval option \<Rightarrow> pyval option \<Rightarrow> pyval option" where
  "py_or a b = (if falsy a then b else a)"

definition update_metadata :: "snapshot \<Rightarrow> coordinator \<Rightarrow> coordinator" where
  "update_metadata d s =
     (let manufacturer0 =
            (if falsy (d ''manufacturer'') \<and> protocol s = Some APC_MIB
             then Some (VStr ''APC'') else d ''manufacturer'')
      in s\<lparr>manufacturer := py_or manufacturer0 (manufacturer s),
            hw_model := py_or (d ''model'') (hw_model s),
            serial_number := py_or (d ''serial_number'') (serial_number s),
            fw_version := py_or (d ''firmware'') (fw_version s)\<rparr>)"

subsection \<open>The update cycle\<close>

definition fast_keys :: "string list" where
  "fast_keys =
     [''output_source_raw'', ''runtime_remaining'', ''seconds_on_battery'', ''battery_charge'',
      ''input_voltage'']"

definition protocol_oids :: "coordinator \<Rightarrow> (string \<times> oid_spec) list" where
  "protocol_oids s = (if protocol s = Some UPS_MIB then UPS_MIB_OIDS else APC_MIB_OIDS)"

definition slow_keys :: "coordinator \<Rightarrow> string list" where
  "slow_keys s = filter (\<lambda>key. key \<notin> set fast_keys) (map fst (protocol_oids s))"

definition slow_due :: "rat \<Rightarrow> coordinator \<Rightarrow> bool" where
  "slow_due now s =
     (of_int (slow_poll_interval s) \<le> now - last_slow_poll s \<or> last_slow_poll s = 0)"

text \<open>
  \<^verbatim>\<open>_async_update_data_locked\<close> in its steps: detection when no protocol is known, the
  fast fetch, the slow fetch when it is due, and the merge, which fails when there is no
  data at all.
\<close>

definition detected :: "device \<Rightarrow> coordinator \<Rightarrow> (pyexc + unit) \<times> coordinator" where
  "detected dev s = (if protocol s = None then detect_protocol dev s else (Inr (), s))"

definition fast_fetch :: "device \<Rightarrow> coordinator \<Rightarrow> (pyexc + snapshot) \<times> coordinator" where
  "fast_fetch dev s = fetch_keys dev (protocol_oids s) fast_keys s"

definition slow_fetch :: "device \<Rightarrow> rat \<Rightarrow> coordinator \<Rightarrow> (pyexc + snapshot) \<times> coordinator" where
  "slow_fetch dev now s =
     (if slow_due now s
      then (case fetch_keys dev (protocol_oids s) (slow_keys s) s of
              (Inl e, s1) \<Rightarrow> (Inl e, s1)
            | (Inr slow_data, s1) \<Rightarrow>
                (Inr slow_data,
                 if slow_data \<noteq> Map.empty then s1\<lparr>last_slow_poll := now\<rparr> else s1))
      else (Inr Map.empty, s))"

definition merged_data :: "device \<Rightarrow> rat \<Rightarrow> coordinator \<Rightarrow> (pyexc + snapshot) \<times> coordinator" where
  "merged_data dev now s =
     (case detected dev s of
        (Inl e, s1) \<Rightarrow> (Inl e, s1)
      | (Inr u, s1) \<Rightarrow>
          (case fast_fetch dev s1 of
             (Inl e, s2) \<Rightarrow> (Inl e, s2)
           | (Inr fast_data, s2) \<Rightarrow>
               (case slow_fetch dev now s2 of
                  (Inl e, s3) \<Rightarrow> (Inl e, s3)
                | (Inr slow_data, s3) \<Rightarrow>
                    if fast_data = Map.empty \<and> slow_data = Map.empty \<and> data s3 = Map.empty
                    then (Inl UpdateFailed, s3)
                    else (Inr (data s3 ++ slow_data ++ fast_data), s3))))"

definition async_update_data_locked ::
  "device \<Rightarrow> rat \<Rightarrow> coordinator \<Rightarrow> (pyexc + snapshot) \<times> coordinator" where
  "async_update_data_locked dev now s =
     (case merged_data dev now s of
        (Inl e, s1) \<Rightarrow> (Inl e, s1)
      | (Inr d, s1) \<Rightarrow>
          (case derive_states (protocol s1) d of
             Inl e \<Rightarrow> (Inl e, s1)
           | Inr derived \<Rightarrow> (Inr (d ++ derived), update_metadata (d ++ derived) s1)))"

definition handle_update_failure :: "pyexc \<Rightarrow> rat \<Rightarrow> coordinator \<Rightarrow> coordinator" where
  "handle_update_failure err t s =
     (let backoff = min backoff_max (backoff_base ^ (failure_count s + 1))
      in s\<lparr>failure_count := failure_count s + 1,
            backoff_until := t + of_int backoff,
            warnings := warnings s @ [BackingOff err backoff]\<rparr>)"

text \<open>
  What \<^verbatim>\<open>_async_update_data\<close> raises: the backoff with the time that remains, the
  ``no data'' failure of the cycle itself, or another exception wrapped.
\<close>

datatype update_failed = BackoffActive rat | NoDataReturned | Wrapped pyexc

text \<open>
  \<open>now\<close> is the clock at the start of the call, \<open>t\<close> the clock that the failure handler
  reads.
\<close>

definition async_update_data ::
  "device \<Rightarrow> rat \<Rightarrow> rat \<Rightarrow> coordinator \<Rightarrow> (update_failed + snapshot) \<times> coordinator" where
  "async_update_data dev now t s =
     (if backoff_until s \<noteq> 0 \<and> now < backoff_until s
      then (Inl (BackoffActive (backoff_until s - now)), s)
      else (case async_update_data_locked dev now s of
              (Inl err, s1) \<Rightarrow>
                (Inl (if err = UpdateFailed then NoDataReturned else Wrapped err),
                 handle_update_failure err t s1)
            | (Inr d, s1) \<Rightarrow> (Inr d, s1\<lparr>failure_count := 0, backoff_until := 0\<rparr>)))"

text \<open>
  The base class, which belongs to the host framework, calls \<^verbatim>\<open>_async_update_data\<close> and
  stores a returned dictionary in \<^verbatim>\<open>self.data\<close>; a failure leaves \<^verbatim>\<open>self.data\<close> as it was.
\<close>

definition refresh :: "device \<Rightarrow> rat \<Rightarrow> rat \<Rightarrow> coordinator \<Rightarrow> coordinator" where
  "refresh dev now t s =
     (case async_update_data dev now t s of
        (Inl e, s1) \<Rightarrow> s1
      | (Inr d, s1) \<Rightarrow> s1\<lparr>data := d\<rparr>)"

section \<open>Notions used in the statements\<close>

text \<open>
  A numeral is one or more digits. The value of a digit is its place in \<open>0123456789\<close>;
  the value of a numeral is the sum of its digits, each times the power of ten of its
  place; the value of a decimal numeral adds the fraction.
\<close>

definition numeral_text :: "string \<Rightarrow> bool" where
  "numeral_text ds = (ds \<noteq> [] \<and> list_all is_digit ds)"




text \<open>
  The mapping that the transport returns for a batch, and the GETs that it sends.
\<close>

definition batch_result :: "network \<Rightarrow> string \<Rightarrow> string list \<Rightarrow> (string \<rightharpoonup> string option)" where
  "batch_result net version oids =
     (\<lambda>x. if x \<in> set oids
          then Some (async_get_snmp_value (net (snmp_version_to_model version) x)) else None)"

definition batch_requests :: "string \<Rightarrow> string list \<Rightarrow> request list" where
  "batch_requests version oids = map (\<lambda>oid. (snmp_version_to_model version, oid)) oids"

text \<open>
  The identifiers that detection probes, and whether the device, after the GETs of a
  history, answers an identifier at a version with a value.
\<close>

definition ups_test_oid :: string where
  "ups_test_oid = ''1.3.6.1.2.1.33.1.4.1.0''"

definition apc_test_oid :: string where
  "apc_test_oid = ''1.3.6.1.4.1.318.1.1.1.1.1.1.0''"

definition answers :: "device \<Rightarrow> request list \<Rightarrow> string \<Rightarrow> string \<Rightarrow> bool" where
  "answers dev hist version x =
     (async_get_snmp_value (dev hist (snmp_version_to_model version) x) \<noteq> None)"

text \<open>
  The states of a cycle before its fast fetch and before its slow fetch, and the keys
  for which the device, in a state, answers no value for the identifier of the table.
\<close>

definition before_fast :: "device \<Rightarrow> coordinator \<Rightarrow> coordinator" where
  "before_fast dev s = snd (detected dev s)"


definition missing :: "device \<Rightarrow> coordinator \<Rightarrow> string \<Rightarrow> bool" where
  "missing dev s key =
     (case map_of (protocol_oids s) key of
        None \<Rightarrow> True
      | Some spec \<Rightarrow> \<not> answers dev (sent s) (snmp_version s) (spec_oid spec))"


definition slow_requests :: "coordinator \<Rightarrow> request list" where
  "slow_requests s = batch_requests (snmp_version s) (key_oids (protocol_oids s) (slow_keys s))"


text \<open>A sequence of refresh calls, each with its two clock readings.\<close>

fun run :: "device \<Rightarrow> (rat \<times> rat) list \<Rightarrow> coordinator \<Rightarrow> coordinator" where
  "run dev [] s = s"
| "run dev ((now, t) # cycles) s = run dev cycles (refresh dev now t s)"

text \<open>
  A sequence of calls that all fail inside the locked part, each then handled by
  \<^verbatim>\<open>_handle_update_failure\<close>; none when a call of the sequence succeeds or is turned away
  by the backoff.
\<close>

fun failed_cycles :: "device \<Rightarrow> (rat \<times> rat) list \<Rightarrow> coordinator \<Rightarrow> coordinator option" where
  "failed_cycles dev [] s = Some s"
| "failed_cycles dev ((now, t) # cycles) s =
     (case async_update_data dev now t s of
        (Inl (BackoffActive r), s1) \<Rightarrow> None
      | (Inl e, s1) \<Rightarrow> failed_cycles dev cycles s1
      | (Inr d, s1) \<Rightarrow> None)"

text \<open>
  Networks and devices for the examples: one that never answers, one that answers the
  UPS output source and has no battery charge, whatever was sent before.
\<close>

definition silent_network :: network where
  "silent_network m x = TimeoutRaised"

definition example_network :: network where
  "example_network m x =
     (if x = ''1.3.6.1.2.1.33.1.4.1.0'' then Reply False False [Asn1 ''3'']
      else if x = ''1.3.6.1.2.1.33.1.2.4.0'' then Reply False False [NoSuchInstance]
      else TimeoutRaised)"

definition silent_device :: device where
  "silent_device hist = silent_network"


section \<open>Properties of the state derivation\<close>

lemma int_of_str_error: "int_of_str t = Inl e \<Longrightarrow> e = ValueError"
  by (simp add: int_of_str_def Let_def split: if_splits)

lemma py_int_error:
  "py_int v = Inl e \<Longrightarrow>
     e = ValueError \<or> (e = OverflowError \<and> (v = VFloat PosInf \<or> v = VFloat NegInf))"
  by (auto simp: py_int_def dest: int_of_str_error split: pyval.splits pyfloat.splits)

text \<open>
  Claim C7. The code spaces are those of the dialect: with the UPS dialect and
  \<^verbatim>\<open>output_source_raw = 5\<close>, and with the APC dialect and \<^verbatim>\<open>output_source_raw = 3\<close>, the
  derived states are \<^verbatim>\<open>on_battery = True\<close>, \<^verbatim>\<open>ac_power = False\<close>, \<^verbatim>\<open>on_bypass = False\<close> and
  \<^verbatim>\<open>output_source = "battery"\<close>, whatever else the snapshot holds, as long as the battery
  status is not an infinite float (on which \<^verbatim>\<open>int()\<close> raises an exception that the
  \<^verbatim>\<open>try\<close> does not catch).
\<close>

theorem derive_states_dialect_codes:
  assumes "(p = UPS_MIB \<and> code = 5) \<or> (p = APC_MIB \<and> code = 3)"
    and "snap ''output_source_raw'' = Some (VInt code)"
    and "snap ''battery_status'' \<noteq> Some (VFloat PosInf)"
    and "snap ''battery_status'' \<noteq> Some (VFloat NegInf)"
  shows "\<exists>d. derive_states (Some p) snap = Inr d
           \<and> d ''on_battery'' = Some (VBool True)
           \<and> d ''ac_power'' = Some (VBool False)
           \<and> d ''on_bypass'' = Some (VBool False)
           \<and> d ''output_source'' = Some (VStr ''battery'')"
  using assms
  by (auto simp: derive_states_def Let_def get_default_def py_int_def[of "VInt _"]
      UPS_OUTPUT_SOURCE_MAP_def APC_OUTPUT_SOURCE_MAP_def
      dest!: py_int_error
      split: option.splits sum.splits pyexc.splits)

theorem derive_states_dialect_codes_witness:
  "(\<exists>d. derive_states (Some UPS_MIB)
           [''output_source_raw'' \<mapsto> VInt 5, ''battery_status'' \<mapsto> VInt 2] = Inr d
         \<and> d ''on_battery'' = Some (VBool True)
         \<and> d ''ac_power'' = Some (VBool False)
         \<and> d ''on_bypass'' = Some (VBool False)
         \<and> d ''output_source'' = Some (VStr ''battery''))
   \<and> (\<exists>d. derive_states (Some APC_MIB)
           [''output_source_raw'' \<mapsto> VInt 3, ''battery_status'' \<mapsto> VInt 2] = Inr d
         \<and> d ''on_battery'' = Some (VBool True)
         \<and> d ''ac_power'' = Some (VBool False)
         \<and> d ''on_bypass'' = Some (VBool False)
         \<and> d ''output_source'' = Some (VStr ''battery''))"
proof
  show "\<exists>d. derive_states (Some UPS_MIB)
           [''output_source_raw'' \<mapsto> VInt 5, ''battery_status'' \<mapsto> VInt 2] = Inr d
         \<and> d ''on_battery'' = Some (VBool True)
         \<and> d ''ac_power'' = Some (VBool False)
         \<and> d ''on_bypass'' = Some (VBool False)
         \<and> d ''output_source'' = Some (VStr ''battery'')"
    by (rule derive_states_dialect_codes [where code = 5]) simp_all
  show "\<exists>d. derive_states (Some APC_MIB)
           [''output_source_raw'' \<mapsto> VInt 3, ''battery_status'' \<mapsto> VInt 2] = Inr d
         \<and> d ''on_battery'' = Some (VBool True)
         \<and> d ''ac_power'' = Some (VBool False)
         \<and> d ''on_bypass'' = Some (VBool False)
         \<and> d ''output_source'' = Some (VStr ''battery'')"
    by (rule derive_states_dialect_codes [where code = 3]) simp_all
qed

text \<open>
  Claim C8. When \<^verbatim>\<open>output_source_raw\<close> is absent from the snapshot, the derived dictionary
  has no key but \<^verbatim>\<open>battery_status_text\<close>: \<^verbatim>\<open>output_source\<close>, \<^verbatim>\<open>ac_power\<close>, \<^verbatim>\<open>on_battery\<close> and
  \<^verbatim>\<open>on_bypass\<close> are absent. The derivation returns, unless the battery status is an
  infinite float.
\<close>

theorem derive_states_without_output_source:
  assumes "snap ''output_source_raw'' = None"
  shows "(\<forall>d. derive_states p snap = Inr d \<longrightarrow>
            dom d \<subseteq> {''battery_status_text''} \<and> d ''output_source'' = None
            \<and> d ''ac_power'' = None \<and> d ''on_battery'' = None \<and> d ''on_bypass'' = None)
       \<and> (\<forall>e. derive_states p snap = Inl e \<longrightarrow>
            e = OverflowError \<and> (snap ''battery_status'' = Some (VFloat PosInf)
               \<or> snap ''battery_status'' = Some (VFloat NegInf)))"
  using assms
  by (auto simp: derive_states_def Let_def
      dest!: py_int_error
      split: option.splits sum.splits pyexc.splits if_splits)

theorem derive_states_without_output_source_witness:
  "[''battery_status'' \<mapsto> VInt 3] ''output_source_raw'' = None
   \<and> derive_states (Some UPS_MIB) [''battery_status'' \<mapsto> VInt 3]
       = Inr [''battery_status_text'' \<mapsto> VStr ''low'']
   \<and> dom [''battery_status_text'' \<mapsto> VStr ''low''] \<subseteq> {''battery_status_text''}
   \<and> [''battery_status_text'' \<mapsto> VStr ''low''] ''ac_power'' = None
   \<and> [''battery_status_text'' \<mapsto> VStr ''low''] ''on_battery'' = None"
proof -
  have h: "[''battery_status'' \<mapsto> VInt 3] ''output_source_raw'' = None"
    by simp
  have r: "derive_states (Some UPS_MIB) [''battery_status'' \<mapsto> VInt 3]
             = Inr [''battery_status_text'' \<mapsto> VStr ''low'']"
    by (simp add: derive_states_def py_int_def get_default_def BATTERY_STATUS_MAP_def)
  from derive_states_without_output_source
         [where snap = "[''battery_status'' \<mapsto> VInt 3]" and p = "Some UPS_MIB", OF h] r
  have "dom [''battery_status_text'' \<mapsto> VStr ''low''] \<subseteq> {''battery_status_text''}
        \<and> [''battery_status_text'' \<mapsto> VStr ''low''] ''ac_power'' = None
        \<and> [''battery_status_text'' \<mapsto> VStr ''low''] ''on_battery'' = None"
    by blast
  with h r show ?thesis by blast
qed

text \<open>
  Claim C4. The derivation does not return on every snapshot. A device that answers the
  output source with a text that holds no number, such as \<^verbatim>\<open>abc\<close>, has this text kept by
  the coercion and stored under \<^verbatim>\<open>output_source_raw\<close>; the derivation then raises
  ValueError, since the conversion of \<^verbatim>\<open>output_source_raw\<close> is outside the \<^verbatim>\<open>try\<close> that
  guards the conversion of the battery status.
\<close>

theorem derive_states_text_output_source_raises:
  "coerce_snmp_value (Some (VStr ''abc'')) = Inr (Some (VStr ''abc''))
   \<and> derive_states (Some UPS_MIB) [''output_source_raw'' \<mapsto> VStr ''abc''] = Inl ValueError"
  by (simp add: coerce_snmp_value_def strip_def isspace_def paren_group_at_def fullmatch_int_def
      fullmatch_decimal_def unsigned_part_def is_digit_def derive_states_def py_int_def
      int_of_str_def int_strip_def int_isspace_def)

section \<open>Properties of the coercion\<close>

subsection \<open>Numerals and their values\<close>








lemma not_digit_paren [simp]: "\<not> is_digit (CHR '')'')" "\<not> is_digit (CHR ''('')"
  "\<not> is_digit (CHR ''-'')" "\<not> is_digit (CHR ''.'')"
  by (simp_all add: is_digit_def)









lemma digits_no_paren: "list_all is_digit ds \<Longrightarrow> CHR ''('' \<notin> set ds"
  by (auto simp: list_all_iff)


lemma numeral_text_hd: "numeral_text ds \<Longrightarrow> \<exists>c r. ds = c # r \<and> is_digit c"
  by (cases ds) (auto simp: numeral_text_def)



subsection \<open>The cases of the coercion\<close>





lemma int_not_decimal:
  assumes "numeral_text ds" shows "\<not> fullmatch_decimal ds" "\<not> fullmatch_decimal (''-'' @ ds)"
proof -
  from assms obtain c r where dc: "ds = c # r" "is_digit c"
    using numeral_text_hd by blast
  then have cne: "c \<noteq> CHR ''-''" by auto
  have dw: "dropWhile is_digit ds = []"
    using assms by (simp add: numeral_text_def list_all_iff)
  have u: "unsigned_part ds = ds" "unsigned_part (''-'' @ ds) = ds"
    using dc cne by (simp_all add: unsigned_part_def)
  show "\<not> fullmatch_decimal ds" "\<not> fullmatch_decimal (''-'' @ ds)"
    unfolding fullmatch_decimal_def Let_def u dw by simp_all
qed




























section \<open>Properties of the unit conversion\<close>

lemma apply_unit_scale_example:
  "apply_unit (scaled x) (VInt 1234) = Inr (VFloat (Finite (4341751515761869 / 35184372088832)))"
  unfolding apply_unit_def scaled_def float_0_1_def
  apply (simp add: is_number_def)
  apply code_simp
  done

lemma float_123_4: "double_of_rat (1234 / 10) = Finite (4341751515761869 / 35184372088832)"
  by code_simp

lemma float_0_1: "double_of_rat (1 / 10) = float_0_1"
  unfolding float_0_1_def by code_simp

lemma apply_unit_timeticks_example:
  "apply_unit (timeticks x) (VInt 12000) = Inr (VFloat (Finite 2))"
  unfolding apply_unit_def timeticks_def
  apply simp
  apply code_simp
  done

lemma apply_unit_text_scaled: "apply_unit (scaled x) (VStr t) = Inr (VStr t)"
  by (simp add: apply_unit_def scaled_def is_number_def)

lemma apply_unit_plain: "apply_unit (plain x) v = Inr v"
  by (simp add: apply_unit_def plain_def)

text \<open>
  Claim C5. The conversion of units is not numeric-only on the time-tick path: the
  division by 6000 is applied to whatever the coercion returned. A device that answers
  the APC runtime identifier with a text such as \<^verbatim>\<open>n/a\<close> has the text kept by the
  coercion, and the division raises TypeError, so the fetch raises. The scaling path
  tests the type first and leaves a text as it is.
\<close>

theorem timeticks_text_raises:
  "coerce_snmp_value (Some (VStr ''n/a'')) = Inr (Some (VStr ''n/a''))
   \<and> map_of APC_MIB_OIDS ''runtime_remaining'' = Some (timeticks ''1.3.6.1.4.1.318.1.1.1.2.2.3.0'')
   \<and> apply_unit (timeticks ''1.3.6.1.4.1.318.1.1.1.2.2.3.0'') (VStr ''n/a'') = Inl TypeError
   \<and> fetch_loop APC_MIB_OIDS [''1.3.6.1.4.1.318.1.1.1.2.2.3.0'' \<mapsto> Some ''n/a'']
        [''runtime_remaining''] Map.empty = Inl TypeError"
proof (intro conjI)
  show c: "coerce_snmp_value (Some (VStr ''n/a'')) = Inr (Some (VStr ''n/a''))"
    by (simp add: coerce_snmp_value_def strip_def isspace_def paren_group_at_def fullmatch_int_def
      fullmatch_decimal_def unsigned_part_def is_digit_def)
  show m: "map_of APC_MIB_OIDS ''runtime_remaining''
             = Some (timeticks ''1.3.6.1.4.1.318.1.1.1.2.2.3.0'')"
    by (simp add: APC_MIB_OIDS_def)
  show a: "apply_unit (timeticks ''1.3.6.1.4.1.318.1.1.1.2.2.3.0'') (VStr ''n/a'') = Inl TypeError"
    by (simp add: apply_unit_def timeticks_def py_truediv_def)
  show "fetch_loop APC_MIB_OIDS [''1.3.6.1.4.1.318.1.1.1.2.2.3.0'' \<mapsto> Some ''n/a'']
        [''runtime_remaining''] Map.empty = Inl TypeError"
  proof -
    have so: "spec_oid (timeticks ''1.3.6.1.4.1.318.1.1.1.2.2.3.0'')
                = ''1.3.6.1.4.1.318.1.1.1.2.2.3.0''"
      by (simp add: timeticks_def)
    show ?thesis
      by (simp add: m c a so raw_get_def)
  qed
qed

section \<open>Properties of the transport\<close>

lemma values_fold:
  "foldl (\<lambda>values (oid, result).
            case result of Inl e \<Rightarrow> values(oid \<mapsto> None) | Inr r \<Rightarrow> values(oid \<mapsto> r))
         m (zip oids (map (\<lambda>oid. Inr (g oid)) oids))
   = (\<lambda>x. if x \<in> set oids then Some (g x) else m x)"
proof (induction oids arbitrary: m)
  case Nil
  then show ?case by simp
next
  case (Cons a oids)
  show ?case
    by (simp add: Cons.IH) (auto simp: fun_eq_iff)
qed

lemma async_get_snmp_values_priv_eq:
  "oids \<noteq> [] \<Longrightarrow>
   async_get_snmp_values_priv net oids version =
     ((\<lambda>x. if x \<in> set oids
            then Some (async_get_snmp_value (net (snmp_version_to_model version) x)) else None),
      map (\<lambda>oid. (snmp_version_to_model version, oid)) oids)"
  by (simp add: async_get_snmp_values_priv_def gather_def values_fold)

text \<open>
  Claim C9, amended. For a non-empty list of identifiers, when a Home Assistant instance
  is passed or the executor is not used, the batch query returns a mapping whose keys
  are exactly the identifiers asked; each is mapped to the result of its single GET,
  which is no value after a timeout, another exception, an error indication, an error
  status, no binding or a sentinel; one GET per identifier is sent. With the executor
  and no Home Assistant instance the call raises RuntimeError and sends nothing. For the
  empty list it returns the empty mapping and sends nothing.
\<close>

theorem async_get_snmp_values_with_executor:
  "(oids \<noteq> [] \<and> (hass \<or> \<not> use_executor) \<longrightarrow>
      (\<exists>values. async_get_snmp_values net oids version hass use_executor
            = (Inr values, map (\<lambda>oid. (snmp_version_to_model version, oid)) oids)
         \<and> dom values = set oids
         \<and> (\<forall>oid \<in> set oids.
               values oid = Some (async_get_snmp_value (net (snmp_version_to_model version) oid)))))
   \<and> (oids \<noteq> [] \<and> use_executor \<and> \<not> hass \<longrightarrow>
        async_get_snmp_values net oids version hass use_executor = (Inl RuntimeError, []))
   \<and> async_get_snmp_values net [] version hass use_executor = (Inr Map.empty, [])
   \<and> async_get_snmp_value TimeoutRaised = None
   \<and> async_get_snmp_value ExceptionRaised = None
   \<and> async_get_snmp_value (Reply True error_status var_binds) = None
   \<and> async_get_snmp_value (Reply error_indication True var_binds) = None
   \<and> async_get_snmp_value (Reply error_indication error_status []) = None
   \<and> (is_missing_value v \<longrightarrow>
        async_get_snmp_value (Reply error_indication error_status (v # var_binds)) = None)"
  by (auto simp: async_get_snmp_values_def get_snmp_values_sync_def
      async_get_snmp_values_priv_eq async_get_snmp_value_def dom_def)

theorem async_get_snmp_values_with_executor_witness:
  "[''1.3.6.1.2.1.33.1.4.1.0'', ''1.3.6.1.2.1.33.1.2.4.0''] \<noteq> []
   \<and> (\<exists>values.
         async_get_snmp_values example_network
             [''1.3.6.1.2.1.33.1.4.1.0'', ''1.3.6.1.2.1.33.1.2.4.0''] ''2c'' True True
           = (Inr values, [(1, ''1.3.6.1.2.1.33.1.4.1.0''), (1, ''1.3.6.1.2.1.33.1.2.4.0'')])
         \<and> values ''1.3.6.1.2.1.33.1.4.1.0'' = Some (Some ''3'')
         \<and> values ''1.3.6.1.2.1.33.1.2.4.0'' = Some None)"
proof -
  let ?oids = "[''1.3.6.1.2.1.33.1.4.1.0'', ''1.3.6.1.2.1.33.1.2.4.0'']"
  have ne: "?oids \<noteq> [] \<and> (True \<or> \<not> True)"
    by simp
  from async_get_snmp_values_with_executor
         [where oids = "?oids" and hass = True and use_executor = True and net = example_network
            and version = "''2c''" and error_status = True and error_indication = True
            and var_binds = "[]" and v = Null]
  have "?oids \<noteq> [] \<and> (True \<or> \<not> True) \<longrightarrow>
      (\<exists>values. async_get_snmp_values example_network ?oids ''2c'' True True
            = (Inr values, map (\<lambda>oid. (snmp_version_to_model ''2c'', oid)) ?oids)
         \<and> dom values = set ?oids
         \<and> (\<forall>oid \<in> set ?oids.
               values oid
                 = Some (async_get_snmp_value (example_network (snmp_version_to_model ''2c'') oid))))"
    by (elim conjE) assumption
  from this ne have "\<exists>vals. async_get_snmp_values example_network ?oids ''2c'' True True
            = (Inr vals, map (\<lambda>oid. (snmp_version_to_model ''2c'', oid)) ?oids)
         \<and> dom vals = set ?oids
         \<and> (\<forall>oid \<in> set ?oids.
               vals oid
                 = Some (async_get_snmp_value (example_network (snmp_version_to_model ''2c'') oid)))"
    by (rule mp)
  then obtain vals where
    v1: "async_get_snmp_values example_network ?oids ''2c'' True True
            = (Inr vals, map (\<lambda>oid. (snmp_version_to_model ''2c'', oid)) ?oids)"
    and v2: "\<forall>oid \<in> set ?oids.
               vals oid
                 = Some (async_get_snmp_value (example_network (snmp_version_to_model ''2c'') oid))"
    by (elim exE conjE)
  from v2 have "vals ''1.3.6.1.2.1.33.1.4.1.0'' = Some (Some ''3'')"
    by (simp add: example_network_def async_get_snmp_value_def strip_def isspace_def)
  moreover from v2 have "vals ''1.3.6.1.2.1.33.1.2.4.0'' = Some None"
    by (simp add: example_network_def async_get_snmp_value_def)
  moreover from v1 have "async_get_snmp_values example_network ?oids ''2c'' True True
           = (Inr vals, [(1, ''1.3.6.1.2.1.33.1.4.1.0''), (1, ''1.3.6.1.2.1.33.1.2.4.0'')])"
    by (simp add: snmp_version_to_model_def)
  ultimately show ?thesis
    by (intro conjI exI [of _ "vals"]) simp_all
qed

text \<open>
  Claim C9 as stated fails: a non-empty list, the executor asked for (the default) and
  no Home Assistant instance (the default) raise RuntimeError instead of returning a
  mapping.
\<close>

theorem async_get_snmp_values_without_hass:
  "fst (async_get_snmp_values silent_network [''1.3.6.1.2.1.33.1.4.1.0''] ''2c'' False True)
     = Inl RuntimeError"
  by (simp add: async_get_snmp_values_def)

section \<open>Properties of the coordinator\<close>

subsection \<open>Fetching and detection\<close>

lemma transport_with_hass:
  "async_get_snmp_values net oids version True True
     = (Inr (batch_result net version oids), batch_requests version oids)"
proof (cases "oids = []")
  case True
  then show ?thesis
    by (simp add: async_get_snmp_values_def batch_result_def batch_requests_def)
next
  case False
  then show ?thesis
    by (simp add: async_get_snmp_values_def get_snmp_values_sync_def
        async_get_snmp_values_priv_eq batch_result_def batch_requests_def)
qed

lemma fetch_loop_no_keys:
  "(\<forall>key \<in> set keys. map_of om key = None) \<Longrightarrow> fetch_loop om raw keys d = Inr d"
  by (induction keys arbitrary: d) auto

lemma key_oids_Nil: "key_oids om keys = [] \<longleftrightarrow> (\<forall>key \<in> set keys. map_of om key = None)"
  by (auto simp: key_oids_def filter_empty_conv)

lemma fetch_keys_eq:
  "fetch_keys dev om keys s =
     (fetch_loop om (batch_result (dev (sent s)) (snmp_version s) (key_oids om keys)) keys Map.empty,
      s\<lparr>sent := sent s @ batch_requests (snmp_version s) (key_oids om keys)\<rparr>)"
proof (cases "key_oids om keys = []")
  case True
  then have "fetch_loop om (batch_result (dev (sent s)) (snmp_version s) []) keys Map.empty
               = Inr Map.empty"
    by (simp add: key_oids_Nil fetch_loop_no_keys)
  with True show ?thesis
    by (simp add: fetch_keys_def batch_requests_def)
next
  case False
  then show ?thesis
    by (simp add: fetch_keys_def transport_with_hass Let_def)
qed

lemma coerce_None: "coerce_snmp_value (map_option VStr None) = Inr None"
  by (simp add: coerce_snmp_value_def)

lemma fetch_loop_missing:
  "fetch_loop om raw keys d = Inr m \<Longrightarrow>
   (\<And>spec. map_of om k = Some spec \<Longrightarrow> raw_get raw (spec_oid spec) = None) \<Longrightarrow>
   m k = d k"
proof (induction keys arbitrary: d)
  case Nil
  then show ?case by simp
next
  case (Cons key keys)
  show ?case
  proof (cases "map_of om key")
    case None
    with Cons show ?thesis by simp
  next
    case (Some spec)
    show ?thesis
    proof (cases "coerce_snmp_value (map_option VStr (raw_get raw (spec_oid spec)))")
      case (Inl e)
      with Some Cons.prems(1) show ?thesis by simp
    next
      case (Inr r)
      show ?thesis
      proof (cases r)
        case None
        with Inr Some Cons show ?thesis by simp
      next
        case v: (Some v)
        from Cons.prems(1) Some Inr v obtain v' where av: "apply_unit spec v = Inr v'"
          and rest: "fetch_loop om raw keys (d(key \<mapsto> v')) = Inr m"
          by (auto split: sum.splits)
        have "key \<noteq> k"
        proof
          assume "key = k"
          with Some Cons.prems(2) have "raw_get raw (spec_oid spec) = None" by simp
          with Inr v show False by (simp add: coerce_snmp_value_def)
        qed
        with Cons.IH [OF rest Cons.prems(2)] show ?thesis by simp
      qed
    qed
  qed
qed


lemma map_of_ups_test: "map_of UPS_MIB_OIDS ''output_source_raw'' = Some (plain ups_test_oid)"
  by (simp add: UPS_MIB_OIDS_def ups_test_oid_def)

lemma map_of_apc_test: "map_of APC_MIB_OIDS ''model'' = Some (plain apc_test_oid)"
  by (simp add: APC_MIB_OIDS_def apc_test_oid_def)

lemma try_protocol_ups:
  "try_protocol dev UPS_MIB UPS_MIB_OIDS version s =
     (Inr (answers dev (sent s) version ups_test_oid),
      s\<lparr>sent := sent s @ [(snmp_version_to_model version, ups_test_oid)]\<rparr>)"
  by (simp add: try_protocol_def map_of_ups_test transport_with_hass plain_def raw_get_def
      batch_result_def batch_requests_def answers_def)

lemma try_protocol_apc:
  "try_protocol dev APC_MIB APC_MIB_OIDS version s =
     (Inr (answers dev (sent s) version apc_test_oid),
      s\<lparr>sent := sent s @ [(snmp_version_to_model version, apc_test_oid)]\<rparr>)"
  by (simp add: try_protocol_def map_of_apc_test transport_with_hass plain_def raw_get_def
      batch_result_def batch_requests_def answers_def)

lemma detect_protocol_eq:
  "detect_protocol dev s =
     (Inr (),
      if answers dev (sent s) ''2c'' ups_test_oid
      then s\<lparr>protocol := Some UPS_MIB, snmp_version := ''2c'',
             sent := sent s @ [(1, ups_test_oid)]\<rparr>
      else if answers dev (sent s @ [(1, ups_test_oid)]) ''2c'' apc_test_oid
      then s\<lparr>protocol := Some APC_MIB, snmp_version := ''2c'',
             sent := sent s @ [(1, ups_test_oid), (1, apc_test_oid)]\<rparr>
      else if answers dev (sent s @ [(1, ups_test_oid), (1, apc_test_oid)]) ''1'' ups_test_oid
      then s\<lparr>protocol := Some UPS_MIB, snmp_version := ''1'',
             sent := sent s @ [(1, ups_test_oid), (1, apc_test_oid), (0, ups_test_oid)]\<rparr>
      else if answers dev (sent s @ [(1, ups_test_oid), (1, apc_test_oid), (0, ups_test_oid)])
                ''1'' apc_test_oid
      then s\<lparr>protocol := Some APC_MIB, snmp_version := ''1'',
             sent := sent s @ [(1, ups_test_oid), (1, apc_test_oid), (0, ups_test_oid),
                               (0, apc_test_oid)]\<rparr>
      else s\<lparr>protocol := Some UPS_MIB,
             sent := sent s @ [(1, ups_test_oid), (1, apc_test_oid), (0, ups_test_oid),
                               (0, apc_test_oid)],
             warnings := warnings s @ [UnableToDetect]\<rparr>)"
  by (simp add: detect_protocol_def try_protocol_ups try_protocol_apc snmp_version_to_model_def)

subsection \<open>What the steps of a cycle change\<close>



lemma detect_protocol_sets: "protocol (snd (detect_protocol dev s)) \<noteq> None"
  by (simp add: detect_protocol_eq)





lemma before_fast_protocol: "protocol (before_fast dev s) \<noteq> None"
  using detect_protocol_sets [of dev s] by (auto simp: before_fast_def detected_def)






lemma slow_fetch_snd:
  "snd (slow_fetch dev now s) =
     (if slow_due now s
      then (if \<exists>m. fst (fetch_keys dev (protocol_oids s) (slow_keys s) s) = Inr m \<and> m \<noteq> Map.empty
            then s\<lparr>last_slow_poll := now, sent := sent s @ slow_requests s\<rparr>
            else s\<lparr>sent := sent s @ slow_requests s\<rparr>)
      else s)"
  by (auto simp: slow_fetch_def fetch_keys_eq slow_requests_def split: prod.splits sum.splits)


















lemma slow_fetch_sent:
  "slow_due now s \<Longrightarrow> sent (snd (slow_fetch dev now s)) = sent s @ slow_requests s"
  by (simp add: slow_fetch_snd)










subsection \<open>The example device\<close>















subsection \<open>The timestamp of the slow poll\<close>



end
